theory Spec2Isabelle
  imports Complex_Main
begin

section \<open>Data model\<close>

text \<open>
  The program is one Python module, \<^verbatim>\<open>main.py\<close>: a worker thread class
  \<^verbatim>\<open>DownloadThread\<close> whose \<^verbatim>\<open>run\<close> acquires a manifest, decodes it and drives
  the download engine, a pass-through progress sink \<^verbatim>\<open>UpdateProgress\<close>, and a
  window class \<^verbatim>\<open>MainWindow\<close> that starts the thread and stops the engine.

  Python \<^verbatim>\<open>str\<close> and \<^verbatim>\<open>bytes\<close> values are character lists. Every character
  class of the URL pattern is ASCII, so a character outside ASCII is outside every class.
\<close>

type_synonym bytes = string

text \<open>\<^verbatim>\<open>class WorkInfo\<close>: the three strings of one job.\<close>

record WorkInfo =
  base_url :: string
  manifest :: string
  download_location :: string

text \<open>
  The fields of legendary's \<^verbatim>\<open>UIUpdate\<close> that \<^verbatim>\<open>update_progress\<close> reads.
  Python floats are idealised as reals.
\<close>

record UIUpdate =
  progress :: real
  download_speed :: real
  read_speed :: real
  write_speed :: real

text \<open>
  Python exceptions, by the classes the program's \<^verbatim>\<open>except\<close> clauses tell apart.
  Each carries the text that \<^verbatim>\<open>str(e)\<close> gives.
\<close>

datatype pyexn =
    RequestException string
  | FileNotFoundError string
  | PermissionError string
  | OtherException string
  | SystemExit
  | OtherBaseException string

fun is_RequestException :: "pyexn \<Rightarrow> bool" where
  "is_RequestException (RequestException _) = True"
| "is_RequestException _ = False"

fun is_FileNotFoundError :: "pyexn \<Rightarrow> bool" where
  "is_FileNotFoundError (FileNotFoundError _) = True"
| "is_FileNotFoundError _ = False"

text \<open>\<^verbatim>\<open>except Exception\<close> catches everything but the bare \<^verbatim>\<open>BaseException\<close> classes.\<close>

fun is_Exception :: "pyexn \<Rightarrow> bool" where
  "is_Exception SystemExit = False"
| "is_Exception (OtherBaseException _) = False"
| "is_Exception _ = True"

fun is_SystemExit :: "pyexn \<Rightarrow> bool" where
  "is_SystemExit SystemExit = True"
| "is_SystemExit _ = False"

fun exn_str :: "pyexn \<Rightarrow> string" where
  "exn_str (RequestException m) = m"
| "exn_str (FileNotFoundError m) = m"
| "exn_str (PermissionError m) = m"
| "exn_str (OtherException m) = m"
| "exn_str SystemExit = []"
| "exn_str (OtherBaseException m) = m"

datatype outcome = Returned | Raised pyexn


section \<open>The URL pattern\<close>

text \<open>
  \<^verbatim>\<open>url_regex\<close> is, after Python's string escapes,
  \<^verbatim>\<open>^https?://(?:www\.)?[-a-zA-Z0-9@:%._\+~#=]{1,256}\.[a-zA-Z0-9()]{1,6}\b(?:[-a-zA-Z0-9()@:%_\+.~#?&=/]*)$\<close>
  and \<^verbatim>\<open>run\<close> applies it with \<^verbatim>\<open>match\<close>. The matcher below follows the pattern
  piece by piece; a backtracking choice of the pattern is a search over the finitely many
  lengths the piece may take.
\<close>

definition alnum_char :: "char \<Rightarrow> bool" where
  "alnum_char c =
     (let n = (of_char c :: nat)
      in (48 \<le> n \<and> n \<le> 57) \<or> (65 \<le> n \<and> n \<le> 90) \<or> (97 \<le> n \<and> n \<le> 122))"

definition host_char :: "char \<Rightarrow> bool" where
  "host_char c = (alnum_char c \<or> List.member ''-@:%._+~#='' c)"

definition tld_char :: "char \<Rightarrow> bool" where
  "tld_char c = (alnum_char c \<or> List.member ''()'' c)"

definition path_char :: "char \<Rightarrow> bool" where
  "path_char c = (alnum_char c \<or> List.member ''-()@:%_+.~#?&=/'' c)"

definition word_char :: "char \<Rightarrow> bool" where
  "word_char c = (alnum_char c \<or> c = CHR ''_'')"

text \<open>\<^verbatim>\<open>https?://\<close> at the start of the string.\<close>

definition strip_scheme :: "string \<Rightarrow> string option" where
  "strip_scheme s =
     (if take 8 s = ''https://'' then Some (drop 8 s)
      else if take 7 s = ''http://'' then Some (drop 7 s)
      else None)"

text \<open>\<^verbatim>\<open>$\<close> without MULTILINE: the end of the string, or just before a final newline.\<close>

definition end_anchor :: "string \<Rightarrow> bool" where
  "end_anchor r = (r = [] \<or> r = [CHR 0x0A])"

text \<open>\<^verbatim>\<open>\b\<close> between the character \<open>p\<close> just matched and the rest \<open>r\<close> of the string.\<close>

definition word_boundary :: "char \<Rightarrow> string \<Rightarrow> bool" where
  "word_boundary p r = (word_char p \<noteq> (case r of [] \<Rightarrow> False | c # _ \<Rightarrow> word_char c))"

text \<open>
  The path group and \<^verbatim>\<open>$\<close>: a newline is no path character, so the anchor can only
  hold once the star has taken every path character.
\<close>

definition match_path :: "string \<Rightarrow> bool" where
  "match_path r = end_anchor (dropWhile path_char r)"

text \<open>\<^verbatim>\<open>[a-zA-Z0-9()]{1,6}\b\<close> and what follows, for each length 1..6.\<close>

definition match_tld :: "string \<Rightarrow> bool" where
  "match_tld r =
     list_ex (\<lambda>j. j \<le> length r \<and> list_all tld_char (take j r) \<and>
                 word_boundary (r ! (j - 1)) (drop j r) \<and> match_path (drop j r))
       [1..<7]"

text \<open>\<^verbatim>\<open>[-a-zA-Z0-9@:%._\+~#=]{1,256}\.\<close> and what follows, for each length 1..256.\<close>

definition match_host :: "string \<Rightarrow> bool" where
  "match_host r =
     list_ex (\<lambda>i. i < length r \<and> list_all host_char (take i r) \<and>
                 r ! i = CHR ''.'' \<and> match_tld (drop (Suc i) r))
       [1..<257]"

definition url_regex_match :: "string \<Rightarrow> bool" where
  "url_regex_match s =
     (case strip_scheme s of
        None \<Rightarrow> False
      | Some r \<Rightarrow> (take 4 r = ''www.'' \<and> match_host (drop 4 r)) \<or> match_host r)"


section \<open>External collaborators\<close>

text \<open>
  What \<^verbatim>\<open>main.py\<close> calls but does not define: \<^verbatim>\<open>requests.get\<close> followed by
  \<^verbatim>\<open>resp.content\<close>, \<^verbatim>\<open>open\<close> followed by \<^verbatim>\<open>read\<close>, legendary's two
  manifest readers, the engine's \<^verbatim>\<open>run_analysis\<close> and \<^verbatim>\<open>run\<close>, the engine's
  constructor and \<^verbatim>\<open>os.kill\<close>. Each is a parameter: a function that either raises
  (\<open>Inl\<close>, or \<open>Some\<close> for a call without a result) or returns. The engine's
  \<^verbatim>\<open>run\<close> hands a sequence of items to its progress sink before it returns or raises.
  The type \<open>'m\<close> is the decoded manifest.
\<close>

record response =
  status_code :: nat
  content :: bytes

text \<open>The two attributes of the engine object that \<^verbatim>\<open>main.py\<close> touches.\<close>

record Manager =
  running :: bool
  parent_pid :: nat

record 'm env =
  requests_get :: "string \<Rightarrow> pyexn + response"
  open_read :: "string \<Rightarrow> pyexn + bytes"
  Manifest_read_all :: "bytes \<Rightarrow> pyexn + 'm"
  JSONManifest_read_all :: "bytes \<Rightarrow> pyexn + 'm"
  run_analysis :: "'m \<Rightarrow> pyexn option"
  manager_run :: "'m \<Rightarrow> UIUpdate option list \<times> pyexn option"
  DLManager :: "WorkInfo \<Rightarrow> Manager"
  os_kill :: "nat \<Rightarrow> pyexn option"

text \<open>
  What the program does to the outside, in the order it does it: log lines, calls of the
  collaborators, emitted signals, the write of the engine's flag, the signal sent with
  \<^verbatim>\<open>os.kill\<close> (always SIGTERM) and the call of the base class's \<^verbatim>\<open>closeEvent\<close>.
\<close>

datatype 'm event =
    LogInfo string
  | LogError string
  | RequestsGet string
  | OpenRead string
  | ManifestReadAll bytes
  | JSONManifestReadAll bytes
  | RunAnalysis 'm
  | ManagerRun
  | ProgressSignal real real real real
  | FinishedSignal
  | SetRunning bool
  | OsKill nat
  | SuperCloseEvent


section \<open>UpdateProgress and DownloadThread\<close>

text \<open>\<^verbatim>\<open>class UpdateProgress\<close>: the sink holds a callback, and \<^verbatim>\<open>put\<close> calls it.\<close>

record 'm UpdateProgress =
  callback :: "UIUpdate option \<Rightarrow> 'm event list"

definition put :: "'m UpdateProgress \<Rightarrow> UIUpdate option \<Rightarrow> 'm event list" where
  "put q item = callback q item"

text \<open>
  \<^verbatim>\<open>DownloadThread.update_progress\<close>: a falsy item (\<open>None\<close>) emits nothing; any
  other emits \<^verbatim>\<open>progress_signal\<close> with the progress and the three speeds, each
  divided by 1024 twice.
\<close>

definition update_progress :: "UIUpdate option \<Rightarrow> 'm event list" where
  "update_progress item =
     (case item of
        None \<Rightarrow> []
      | Some p \<Rightarrow>
          (let mbs = download_speed p / 1024 / 1024
           in [ProgressSignal (progress p) mbs
                 (read_speed p / 1024 / 1024) (write_speed p / 1024 / 1024)]))"

record DownloadThread =
  url :: string
  work_info :: WorkInfo
  manager :: Manager

text \<open>
  \<^verbatim>\<open>DownloadThread.__init__\<close>. The cache directory and the resume file are paths
  under \<^verbatim>\<open>download_location\<close>, so the engine's constructor gets the WorkInfo.
\<close>

definition DownloadThread_init :: "'m env \<Rightarrow> string \<Rightarrow> WorkInfo \<Rightarrow> DownloadThread" where
  "DownloadThread_init env u wi = \<lparr>url = u, work_info = wi, manager = DLManager env wi\<rparr>"

definition progress_queue :: "'m UpdateProgress" where
  "progress_queue = \<lparr>callback = update_progress\<rparr>"

text \<open>The items the engine hands to the sink, one \<^verbatim>\<open>put\<close> each, in order.\<close>

definition put_all :: "'m UpdateProgress \<Rightarrow> UIUpdate option list \<Rightarrow> 'm event list" where
  "put_all q items = concat (map (put q) items)"

text \<open>
  \<^verbatim>\<open>run\<close>, lines 59 to 73: the manifest's bytes. A URL is fetched and only
  \<^verbatim>\<open>requests.RequestException\<close> is caught; anything else is opened as a file and only
  \<^verbatim>\<open>FileNotFoundError\<close> is caught. A caught error is logged and \<^verbatim>\<open>run\<close> returns.
  The response's status is never read.
\<close>

definition run_data :: "'m env \<Rightarrow> string \<Rightarrow> 'm event list \<times> (outcome + bytes)" where
  "run_data env spec =
     (if url_regex_match spec then
        (case requests_get env spec of
           Inr resp \<Rightarrow>
             ([LogInfo ''Downloading manifest from URL...'', RequestsGet spec],
              Inr (content resp))
         | Inl e \<Rightarrow>
             (if is_RequestException e then
                ([LogInfo ''Downloading manifest from URL...'', RequestsGet spec,
                  LogError (''Error downloading manifest: '' @ exn_str e)], Inl Returned)
              else
                ([LogInfo ''Downloading manifest from URL...'', RequestsGet spec],
                 Inl (Raised e))))
      else
        (case open_read env spec of
           Inr data \<Rightarrow> ([OpenRead spec], Inr data)
         | Inl e \<Rightarrow>
             (if is_FileNotFoundError e then
                ([OpenRead spec, LogError ''Manifest file not found.''], Inl Returned)
              else ([OpenRead spec], Inl (Raised e)))))"

text \<open>
  \<^verbatim>\<open>run\<close>, lines 75 to 82: the binary reader first; on any \<^verbatim>\<open>Exception\<close> the
  JSON reader; on any \<^verbatim>\<open>Exception\<close> of that one, its message is logged and
  \<^verbatim>\<open>run\<close> returns.
\<close>

definition run_manifest :: "'m env \<Rightarrow> bytes \<Rightarrow> 'm event list \<times> (outcome + 'm)" where
  "run_manifest env data =
     (case Manifest_read_all env data of
        Inr m \<Rightarrow> ([ManifestReadAll data], Inr m)
      | Inl e1 \<Rightarrow>
          (if is_Exception e1 then
             (case JSONManifest_read_all env data of
                Inr m \<Rightarrow> ([ManifestReadAll data, JSONManifestReadAll data], Inr m)
              | Inl e \<Rightarrow>
                  (if is_Exception e then
                     ([ManifestReadAll data, JSONManifestReadAll data,
                       LogError (''Error parsing manifest: '' @ exn_str e)], Inl Returned)
                   else ([ManifestReadAll data, JSONManifestReadAll data], Inl (Raised e))))
           else ([ManifestReadAll data], Inl (Raised e1))))"

text \<open>
  \<^verbatim>\<open>run\<close>, lines 84 to 91: the analysis, outside every \<^verbatim>\<open>try\<close>; then the
  engine's \<^verbatim>\<open>run\<close>, whose items reach \<^verbatim>\<open>put\<close>. \<^verbatim>\<open>SystemExit\<close> is swallowed,
  and \<^verbatim>\<open>finally\<close> emits \<^verbatim>\<open>finished\<close> whatever the engine did.
\<close>

definition run_engine :: "'m env \<Rightarrow> 'm \<Rightarrow> 'm event list \<times> outcome" where
  "run_engine env m =
     (case run_analysis env m of
        Some e \<Rightarrow> ([RunAnalysis m], Raised e)
      | None \<Rightarrow>
          (case manager_run env m of
             (items, r) \<Rightarrow>
               ([RunAnalysis m, ManagerRun] @ put_all progress_queue items @ [FinishedSignal],
                (case r of
                   None \<Rightarrow> Returned
                 | Some e \<Rightarrow> if is_SystemExit e then Returned else Raised e))))"

definition run :: "'m env \<Rightarrow> DownloadThread \<Rightarrow> 'm event list \<times> outcome" where
  "run env t =
     (case run_data env (manifest (work_info t)) of
        (ev1, Inl out) \<Rightarrow> (ev1, out)
      | (ev1, Inr data) \<Rightarrow>
          (case run_manifest env data of
             (ev2, Inl out) \<Rightarrow> (ev1 @ ev2, out)
           | (ev2, Inr m) \<Rightarrow>
               (case run_engine env m of (ev3, out) \<Rightarrow> (ev1 @ ev2 @ ev3, out))))"

text \<open>
  \<^verbatim>\<open>start\<close> is inherited from \<^verbatim>\<open>QThread\<close>, which is not part of the program: it
  executes \<^verbatim>\<open>run\<close>. Whether the base class emits \<^verbatim>\<open>finished\<close> of its own accord
  once \<^verbatim>\<open>run\<close> has returned is the parameter \<open>emits_on_return\<close>.
\<close>

definition start :: "bool \<Rightarrow> 'm env \<Rightarrow> DownloadThread \<Rightarrow> 'm event list \<times> outcome" where
  "start emits_on_return env t =
     (case run env t of
        (evs, Returned) \<Rightarrow> (evs @ (if emits_on_return then [FinishedSignal] else []), Returned)
      | (evs, Raised e) \<Rightarrow> (evs, Raised e))"

text \<open>\<^verbatim>\<open>DownloadThread.kill\<close>: SIGTERM to the engine's \<^verbatim>\<open>_parent_pid\<close>.\<close>

definition kill :: "'m env \<Rightarrow> DownloadThread \<Rightarrow> 'm event list \<times> outcome" where
  "kill env t =
     ([OsKill (parent_pid (manager t))],
      (case os_kill env (parent_pid (manager t)) of None \<Rightarrow> Returned | Some e \<Rightarrow> Raised e))"


section \<open>MainWindow\<close>

record MainWindow =
  url_edit :: string
  manifest_location_edit :: string
  download_location_edit :: string
  download_button_enabled :: bool
  progress_bar_value :: int
  progress_label :: string
  speed_label :: string
  download_thread :: "DownloadThread option"

text \<open>\<^verbatim>\<open>init_ui\<close>: the widgets' starting contents, and no download thread.\<close>

definition init_ui :: MainWindow where
  "init_ui =
     \<lparr>url_edit = ''https://epicgames-download1.akamaized.net/Builds/Fortnite/CloudDir/'',
      manifest_location_edit = [],
      download_location_edit = [],
      download_button_enabled = True,
      progress_bar_value = 0,
      progress_label = [],
      speed_label = [],
      download_thread = None\<rparr>"

text \<open>
  \<^verbatim>\<open>download_file\<close>: a new thread from the three text fields replaces whatever
  \<^verbatim>\<open>download_thread\<close> held, and the button is disabled. The thread then runs
  \<^verbatim>\<open>start\<close> on its own.
\<close>

definition download_file :: "'m env \<Rightarrow> MainWindow \<Rightarrow> MainWindow" where
  "download_file env w =
     (let wi = \<lparr>base_url = url_edit w, manifest = manifest_location_edit w,
                download_location = download_location_edit w\<rparr>
      in w\<lparr>download_thread := Some (DownloadThread_init env (url_edit w) wi),
           download_button_enabled := False\<rparr>)"

text \<open>The assignment \<^verbatim>\<open>self.download_thread.manager.running = False\<close>.\<close>

definition stop_running :: "DownloadThread \<Rightarrow> DownloadThread" where
  "stop_running t = t\<lparr>manager := (manager t)\<lparr>running := False\<rparr>\<rparr>"

text \<open>
  \<^verbatim>\<open>download_finished\<close>, the slot connected to the thread's \<^verbatim>\<open>finished\<close>: the
  widgets are reset, the engine's flag is cleared, then \<^verbatim>\<open>kill\<close>. Reading
  \<^verbatim>\<open>manager\<close> of \<^verbatim>\<open>None\<close> raises \<^verbatim>\<open>AttributeError\<close>.
\<close>

definition download_finished :: "'m env \<Rightarrow> MainWindow \<Rightarrow> MainWindow \<times> 'm event list \<times> outcome" where
  "download_finished env w =
     (let w1 = w\<lparr>download_button_enabled := True, progress_bar_value := 0,
                 progress_label := ''Download Finished'', speed_label := []\<rparr>
      in case download_thread w1 of
           None \<Rightarrow> (w1, [], Raised (OtherException ''AttributeError''))
         | Some t \<Rightarrow>
             (case kill env (stop_running t) of
                (evs, out) \<Rightarrow>
                  (w1\<lparr>download_thread := Some (stop_running t)\<rparr>, SetRunning False # evs, out)))"

text \<open>
  \<^verbatim>\<open>closeEvent\<close>: with a download thread, the flag is cleared, then \<^verbatim>\<open>kill\<close>; the
  base class's \<^verbatim>\<open>closeEvent\<close> follows unless \<^verbatim>\<open>kill\<close> raised.
\<close>

definition closeEvent :: "'m env \<Rightarrow> MainWindow \<Rightarrow> MainWindow \<times> 'm event list \<times> outcome" where
  "closeEvent env w =
     (case download_thread w of
        None \<Rightarrow> (w, [SuperCloseEvent], Returned)
      | Some t \<Rightarrow>
          (case kill env (stop_running t) of
             (evs, Returned) \<Rightarrow>
               (w\<lparr>download_thread := Some (stop_running t)\<rparr>,
                SetRunning False # evs @ [SuperCloseEvent], Returned)
           | (evs, Raised e) \<Rightarrow>
               (w\<lparr>download_thread := Some (stop_running t)\<rparr>,
                SetRunning False # evs, Raised e)))"


section \<open>Observations on a trace\<close>

text \<open>The error lines logged, the URLs fetched and the files opened, in order.\<close>

fun error_logs :: "'m event list \<Rightarrow> string list" where
  "error_logs [] = []"
| "error_logs (LogError msg # es) = msg # error_logs es"
| "error_logs (_ # es) = error_logs es"

fun remote_fetches :: "'m event list \<Rightarrow> string list" where
  "remote_fetches [] = []"
| "remote_fetches (RequestsGet u # es) = u # remote_fetches es"
| "remote_fetches (_ # es) = remote_fetches es"

fun local_reads :: "'m event list \<Rightarrow> string list" where
  "local_reads [] = []"
| "local_reads (OpenRead p # es) = p # local_reads es"
| "local_reads (_ # es) = local_reads es"

text \<open>The signal a truthy item becomes, with one division by 1,048,576 per speed.\<close>

definition signal_of :: "UIUpdate \<Rightarrow> 'm event" where
  "signal_of p =
     ProgressSignal (progress p) (download_speed p / 1048576)
       (read_speed p / 1048576) (write_speed p / 1048576)"


section \<open>Concrete jobs\<close>

text \<open>
  Collaborators for concrete runs; the decoded manifest is a string naming the reader
  that produced it. In \<open>env_ok\<close> every call succeeds; the others change one or two calls.
\<close>

definition sample1 :: UIUpdate where
  "sample1 = \<lparr>progress = 50, download_speed = 2097152, read_speed = 1048576,
              write_speed = 524288\<rparr>"

definition sample2 :: UIUpdate where
  "sample2 = \<lparr>progress = 100, download_speed = 4194304, read_speed = 0,
              write_speed = 3145728\<rparr>"

definition env_ok :: "string env" where
  "env_ok =
     \<lparr>requests_get = (\<lambda>u. Inr \<lparr>status_code = 200, content = ''remote bytes''\<rparr>),
      open_read = (\<lambda>p. Inr ''file bytes''),
      Manifest_read_all = (\<lambda>d. Inr ''binary''),
      JSONManifest_read_all = (\<lambda>d. Inr ''json''),
      run_analysis = (\<lambda>m. None),
      manager_run = (\<lambda>m. ([Some sample1, Some sample2], None)),
      DLManager = (\<lambda>wi. \<lparr>running = True, parent_pid = 4242\<rparr>),
      os_kill = (\<lambda>p. None)\<rparr>"

definition env_json :: "string env" where
  "env_json = env_ok\<lparr>Manifest_read_all := (\<lambda>d. Inl (OtherException ''bad magic''))\<rparr>"

definition env_undecodable :: "string env" where
  "env_undecodable =
     env_ok\<lparr>Manifest_read_all := (\<lambda>d. Inl (OtherException ''bad magic'')),
            JSONManifest_read_all := (\<lambda>d. Inl (OtherException ''not json''))\<rparr>"

definition env_404 :: "string env" where
  "env_404 =
     env_undecodable\<lparr>requests_get := (\<lambda>u. Inr \<lparr>status_code = 404, content = ''Not Found''\<rparr>)\<rparr>"

definition env_unreachable :: "string env" where
  "env_unreachable = env_ok\<lparr>requests_get := (\<lambda>u. Inl (RequestException ''connection refused''))\<rparr>"

definition env_missing_file :: "string env" where
  "env_missing_file = env_ok\<lparr>open_read := (\<lambda>p. Inl (FileNotFoundError ''No such file''))\<rparr>"

definition env_denied :: "string env" where
  "env_denied = env_ok\<lparr>open_read := (\<lambda>p. Inl (PermissionError ''Permission denied''))\<rparr>"

definition env_kill_fails :: "string env" where
  "env_kill_fails = env_ok\<lparr>os_kill := (\<lambda>p. Some (OtherException ''No such process''))\<rparr>"

definition local_window :: MainWindow where
  "local_window =
     init_ui\<lparr>manifest_location_edit := ''/tmp/game.manifest'',
             download_location_edit := ''/tmp/out''\<rparr>"

definition remote_window :: MainWindow where
  "remote_window =
     init_ui\<lparr>manifest_location_edit := ''https://cdn.example.com/builds/app.manifest'',
             download_location_edit := ''/tmp/out''\<rparr>"

definition local_thread :: DownloadThread where
  "local_thread = the (download_thread (download_file env_ok local_window))"

definition remote_thread :: DownloadThread where
  "remote_thread = the (download_thread (download_file env_ok remote_window))"


section \<open>Facts about the concrete jobs and the traces\<close>

lemma remote_spec_matches: "url_regex_match ''https://cdn.example.com/builds/app.manifest''"
  by code_simp

lemma local_spec_no_match: "\<not> url_regex_match ''/tmp/game.manifest''"
  by (simp add: url_regex_match_def strip_scheme_def)

lemma local_thread_simps:
  "manifest (work_info local_thread) = ''/tmp/game.manifest''"
  "manager local_thread = \<lparr>running = True, parent_pid = 4242\<rparr>"
  by (simp_all add: local_thread_def download_file_def local_window_def init_ui_def
      DownloadThread_init_def env_ok_def)

lemma remote_thread_simps:
  "manifest (work_info remote_thread) = ''https://cdn.example.com/builds/app.manifest''"
  "manager remote_thread = \<lparr>running = True, parent_pid = 4242\<rparr>"
  by (simp_all add: remote_thread_def download_file_def remote_window_def init_ui_def
      DownloadThread_init_def env_ok_def)

lemma put_progress_queue: "put progress_queue = update_progress"
  by (rule ext) (simp add: put_def progress_queue_def)

lemma put_all_progress_queue: "put_all progress_queue items = concat (map update_progress items)"
  by (simp add: put_all_def put_progress_queue)

lemma update_progress_Some: "update_progress (Some p) = [signal_of p]"
  by (simp add: update_progress_def signal_of_def)

lemma error_logs_append: "error_logs (xs @ ys) = error_logs xs @ error_logs ys"
  by (induction xs rule: error_logs.induct) simp_all

lemma remote_fetches_append: "remote_fetches (xs @ ys) = remote_fetches xs @ remote_fetches ys"
  by (induction xs rule: remote_fetches.induct) simp_all

lemma local_reads_append: "local_reads (xs @ ys) = local_reads xs @ local_reads ys"
  by (induction xs rule: local_reads.induct) simp_all

lemma put_all_quiet:
  "error_logs (put_all progress_queue items) = []"
  "remote_fetches (put_all progress_queue items) = []"
  "local_reads (put_all progress_queue items) = []"
  by (induction items)
     (simp_all add: put_all_def put_def progress_queue_def update_progress_def
        error_logs_append remote_fetches_append local_reads_append split: option.splits)

lemma run_engine_quiet:
  "error_logs (fst (run_engine env m)) = []"
  "remote_fetches (fst (run_engine env m)) = []"
  "local_reads (fst (run_engine env m)) = []"
  by (simp_all add: run_engine_def put_all_quiet error_logs_append remote_fetches_append
      local_reads_append split: option.splits prod.splits)

lemma run_manifest_no_acquisition:
  "remote_fetches (fst (run_manifest env data)) = []"
  "local_reads (fst (run_manifest env data)) = []"
  by (simp_all add: run_manifest_def split: sum.splits)

lemma put_all_Some: "put_all progress_queue (map Some ps) = map signal_of ps"
  by (induction ps) (simp_all add: put_all_progress_queue update_progress_Some)

lemma run_data_Inr_quiet:
  "run_data env spec = (ev1, Inr data) \<Longrightarrow> error_logs ev1 = []"
  by (auto simp: run_data_def split: if_splits sum.splits)

lemma run_data_acquisition:
  "remote_fetches (fst (run_data env spec)) = (if url_regex_match spec then [spec] else [])"
  "local_reads (fst (run_data env spec)) = (if url_regex_match spec then [] else [spec])"
  by (simp_all add: run_data_def split: sum.splits)

lemma run_events:
  "\<exists>rest. fst (run env t) = fst (run_data env (manifest (work_info t))) @ rest \<and>
     remote_fetches rest = [] \<and> local_reads rest = []"
proof (cases "run_data env (manifest (work_info t))")
  case (Pair ev1 r1)
  show ?thesis
  proof (cases r1)
    case (Inl out)
    with Pair show ?thesis by (simp add: run_def)
  next
    case (Inr data)
    show ?thesis
    proof (cases "run_manifest env data")
      case (Pair ev2 r2)
      note rm = this
      have q2: "remote_fetches ev2 = []" "local_reads ev2 = []"
        using run_manifest_no_acquisition [of env data] rm by simp_all
      show ?thesis
      proof (cases r2)
        case (Inl out)
        with \<open>run_data env (manifest (work_info t)) = (ev1, r1)\<close> Inr rm q2
        show ?thesis by (simp add: run_def)
      next
        case (Inr m)
        obtain ev3 out where re: "run_engine env m = (ev3, out)"
          by (cases "run_engine env m")
        have q3: "remote_fetches ev3 = []" "local_reads ev3 = []"
          using run_engine_quiet [of env m] re by simp_all
        from \<open>run_data env (manifest (work_info t)) = (ev1, r1)\<close> \<open>r1 = Inr data\<close> rm Inr re q2 q3
        show ?thesis
          by (simp add: run_def remote_fetches_append local_reads_append)
      qed
    qed
  qed
qed

lemma local_run_data:
  "run_data env_json (manifest (work_info local_thread)) =
     ([OpenRead ''/tmp/game.manifest''], Inr ''file bytes'')"
  "run_data env_undecodable (manifest (work_info local_thread)) =
     ([OpenRead ''/tmp/game.manifest''], Inr ''file bytes'')"
  "run_data env_ok (manifest (work_info local_thread)) =
     ([OpenRead ''/tmp/game.manifest''], Inr ''file bytes'')"
  by (simp_all add: run_data_def local_thread_simps local_spec_no_match env_json_def
      env_undecodable_def env_ok_def)

lemma put_all_no_fallback_decode: "JSONManifestReadAll d \<notin> set (put_all progress_queue items)"
  by (induction items)
     (simp_all add: put_all_def put_def progress_queue_def update_progress_def
        split: option.splits)

lemma run_engine_no_fallback_decode: "JSONManifestReadAll d \<notin> set (fst (run_engine env m))"
  by (simp add: run_engine_def put_all_no_fallback_decode split: option.splits prod.splits)

lemma run_data_no_fallback_decode: "JSONManifestReadAll d \<notin> set (fst (run_data env spec))"
  by (simp add: run_data_def split: sum.splits)


section \<open>The terminal notification\<close>

text \<open>
  C1 asks for exactly one terminal notification per job. The notification is the
  \<^verbatim>\<open>finished\<close> signal, which \<^verbatim>\<open>download_finished\<close> is connected to. \<^verbatim>\<open>run\<close>
  emits it only in the \<^verbatim>\<open>finally\<close> around the engine's \<^verbatim>\<open>run\<close>; each early
  \<^verbatim>\<open>return\<close> leaves without it. So if the thread's base class adds nothing, a job
  whose manifest file is missing delivers none; and if the base class emits the signal
  itself whenever \<^verbatim>\<open>run\<close> returns, a job that completes delivers two.
\<close>

theorem C1_finished_not_once:
  "count_list (fst (start False env_missing_file local_thread)) FinishedSignal = 0 \<and>
   count_list (fst (start True env_ok local_thread)) FinishedSignal = 2"
  by (simp add: start_def run_def run_data_def run_manifest_def run_engine_def
      local_thread_simps local_spec_no_match env_missing_file_def env_ok_def
      put_all_progress_queue update_progress_Some signal_of_def)


section \<open>Fetching a manifest from a URL\<close>

text \<open>
  C2 as stated fails: a response with status 404 is no error for \<^verbatim>\<open>run\<close>, which never
  reads the status. The body of the response goes to both readers, and the error that is
  logged is the parse error of the body.
\<close>

theorem C2_status_404_is_decoded:
  "url_regex_match (manifest (work_info remote_thread)) \<and>
   map_sum id status_code (requests_get env_404 (manifest (work_info remote_thread))) = Inr 404 \<and>
   run env_404 remote_thread =
     ([LogInfo ''Downloading manifest from URL...'',
       RequestsGet ''https://cdn.example.com/builds/app.manifest'',
       ManifestReadAll ''Not Found'', JSONManifestReadAll ''Not Found'',
       LogError ''Error parsing manifest: not json''], Returned)"
  by (simp add: run_def run_data_def run_manifest_def remote_thread_simps
      remote_spec_matches env_404_def env_undecodable_def env_ok_def)

text \<open>
  C2, amended: for a manifest spec that matches the URL pattern, a fetch that raises
  \<^verbatim>\<open>requests.RequestException\<close> makes \<^verbatim>\<open>run\<close> log the download error and
  return: the whole trace is the info line, the fetch and the error line, so no reader is
  called and the engine is never run. A fetch that returns a response, whatever its
  status, is no failure: nothing is logged as an error up to there, and the binary reader
  is called with the body of the response.
\<close>

theorem C2_fetch_outcomes:
  assumes "url_regex_match (manifest (work_info t))"
  shows "(\<forall>msg. requests_get env (manifest (work_info t)) = Inl (RequestException msg) \<longrightarrow>
        run env t =
          ([LogInfo ''Downloading manifest from URL...'', RequestsGet (manifest (work_info t)),
            LogError (''Error downloading manifest: '' @ msg)], Returned)) \<and>
    (\<forall>resp. requests_get env (manifest (work_info t)) = Inr resp \<longrightarrow>
        run_data env (manifest (work_info t)) =
          ([LogInfo ''Downloading manifest from URL...'', RequestsGet (manifest (work_info t))],
           Inr (content resp)) \<and>
        (\<exists>rest. fst (run env t) =
           [LogInfo ''Downloading manifest from URL...'', RequestsGet (manifest (work_info t)),
            ManifestReadAll (content resp)] @ rest))"
proof (intro conjI allI impI)
  fix msg
  assume "requests_get env (manifest (work_info t)) = Inl (RequestException msg)"
  with assms show "run env t =
      ([LogInfo ''Downloading manifest from URL...'', RequestsGet (manifest (work_info t)),
        LogError (''Error downloading manifest: '' @ msg)], Returned)"
    by (simp add: run_def run_data_def)
next
  fix resp
  assume "requests_get env (manifest (work_info t)) = Inr resp"
  with assms show d: "run_data env (manifest (work_info t)) =
      ([LogInfo ''Downloading manifest from URL...'', RequestsGet (manifest (work_info t))],
       Inr (content resp))"
    by (simp add: run_data_def)
  show "\<exists>rest. fst (run env t) =
      [LogInfo ''Downloading manifest from URL...'', RequestsGet (manifest (work_info t)),
       ManifestReadAll (content resp)] @ rest"
    by (auto simp: run_def d run_manifest_def split: sum.splits prod.splits)
qed

theorem C2_fetch_outcomes_witness:
  "url_regex_match (manifest (work_info remote_thread)) \<and>
   requests_get env_unreachable (manifest (work_info remote_thread)) =
     Inl (RequestException ''connection refused'') \<and>
   run env_unreachable remote_thread =
     ([LogInfo ''Downloading manifest from URL...'',
       RequestsGet ''https://cdn.example.com/builds/app.manifest'',
       LogError ''Error downloading manifest: connection refused''], Returned) \<and>
   requests_get env_404 (manifest (work_info remote_thread)) =
     Inr \<lparr>status_code = 404, content = ''Not Found''\<rparr> \<and>
   run_data env_404 (manifest (work_info remote_thread)) =
     ([LogInfo ''Downloading manifest from URL...'',
       RequestsGet ''https://cdn.example.com/builds/app.manifest''], Inr ''Not Found'') \<and>
   (\<exists>rest. fst (run env_404 remote_thread) =
      [LogInfo ''Downloading manifest from URL...'',
       RequestsGet ''https://cdn.example.com/builds/app.manifest'',
       ManifestReadAll ''Not Found''] @ rest)"
proof -
  have m: "url_regex_match (manifest (work_info remote_thread))"
    by (simp add: remote_thread_simps remote_spec_matches)
  have r: "requests_get env_unreachable (manifest (work_info remote_thread)) =
      Inl (RequestException ''connection refused'')"
    by (simp add: env_unreachable_def)
  have q: "requests_get env_404 (manifest (work_info remote_thread)) =
      Inr \<lparr>status_code = 404, content = ''Not Found''\<rparr>"
    by (simp add: env_404_def)
  from C2_fetch_outcomes [OF m, of env_unreachable] r
  have a: "run env_unreachable remote_thread =
      ([LogInfo ''Downloading manifest from URL...'',
        RequestsGet (manifest (work_info remote_thread)),
        LogError (''Error downloading manifest: '' @ ''connection refused'')], Returned)"
    by blast
  from C2_fetch_outcomes [OF m, of env_404] q
  have b: "run_data env_404 (manifest (work_info remote_thread)) =
      ([LogInfo ''Downloading manifest from URL...'',
        RequestsGet (manifest (work_info remote_thread))],
       Inr (content \<lparr>status_code = 404, content = ''Not Found''\<rparr>))"
    and c: "\<exists>rest. fst (run env_404 remote_thread) =
      [LogInfo ''Downloading manifest from URL...'',
       RequestsGet (manifest (work_info remote_thread)),
       ManifestReadAll (content \<lparr>status_code = 404, content = ''Not Found''\<rparr>)] @ rest"
    by blast+
  show ?thesis
    using m r q a b c by (simp add: remote_thread_simps)
qed


section \<open>Decoding\<close>

text \<open>
  C3 as stated fails in its last part: when both readers fail, what \<^verbatim>\<open>run\<close>
  produces is an error line in the log. It emits no \<^verbatim>\<open>finished\<close> signal on that path,
  and the signal has no argument that could carry an error.
\<close>

theorem C3_both_fail_no_finished:
  "run_data env_undecodable (manifest (work_info local_thread)) =
     ([OpenRead ''/tmp/game.manifest''], Inr ''file bytes'') \<and>
   Manifest_read_all env_undecodable ''file bytes'' = Inl (OtherException ''bad magic'') \<and>
   JSONManifest_read_all env_undecodable ''file bytes'' = Inl (OtherException ''not json'') \<and>
   run env_undecodable local_thread =
     ([OpenRead ''/tmp/game.manifest'', ManifestReadAll ''file bytes'',
       JSONManifestReadAll ''file bytes'', LogError ''Error parsing manifest: not json''],
      Returned) \<and>
   count_list (fst (run env_undecodable local_thread)) FinishedSignal = 0"
  by (simp add: run_def run_data_def run_manifest_def local_thread_simps local_spec_no_match
      env_undecodable_def env_ok_def)

text \<open>
  C3, amended: once the manifest's bytes are there, the binary reader is the first call,
  and when it succeeds the JSON reader is not called and the binary reader's manifest is
  the one the analysis and the engine get. If it fails (raises an \<^verbatim>\<open>Exception\<close>) and
  the JSON reader succeeds, the JSON reader's manifest is the one they get, and the job
  logs no error. If both fail, the job ends with exactly one error line in the log, which
  carries the JSON reader's error and nothing of the binary reader's, and the engine is
  never run.
\<close>

theorem C3_decode_order_and_error_line:
  assumes "run_data env (manifest (work_info t)) = (ev1, Inr data)"
  shows "(\<exists>rest. fst (run env t) = ev1 @ ManifestReadAll data # rest) \<and>
    (\<forall>m. Manifest_read_all env data = Inr m \<longrightarrow>
        run env t =
          (ev1 @ [ManifestReadAll data] @ fst (run_engine env m), snd (run_engine env m)) \<and>
        (\<exists>rest. fst (run_engine env m) = RunAnalysis m # rest) \<and>
        JSONManifestReadAll data \<notin> set (fst (run env t))) \<and>
    (\<forall>e1 m. Manifest_read_all env data = Inl e1 \<and> is_Exception e1 \<and>
        JSONManifest_read_all env data = Inr m \<longrightarrow>
        run env t =
          (ev1 @ [ManifestReadAll data, JSONManifestReadAll data] @ fst (run_engine env m),
           snd (run_engine env m)) \<and>
        (\<exists>rest. fst (run_engine env m) = RunAnalysis m # rest) \<and>
        error_logs (fst (run env t)) = []) \<and>
    (\<forall>e1 e2. Manifest_read_all env data = Inl e1 \<and> is_Exception e1 \<and>
        JSONManifest_read_all env data = Inl e2 \<and> is_Exception e2 \<longrightarrow>
        run env t =
          (ev1 @ [ManifestReadAll data, JSONManifestReadAll data,
                  LogError (''Error parsing manifest: '' @ exn_str e2)], Returned) \<and>
        error_logs (fst (run env t)) = [''Error parsing manifest: '' @ exn_str e2])"
proof (intro conjI allI impI)
  show "\<exists>rest. fst (run env t) = ev1 @ ManifestReadAll data # rest"
    using assms
    by (auto simp: run_def run_manifest_def split: sum.splits prod.splits)
next
  fix m
  assume h: "Manifest_read_all env data = Inr m"
  then have rm: "run_manifest env data = ([ManifestReadAll data], Inr m)"
    by (simp add: run_manifest_def)
  show r: "run env t =
      (ev1 @ [ManifestReadAll data] @ fst (run_engine env m), snd (run_engine env m))"
    using assms rm by (simp add: run_def split: prod.splits)
  show "\<exists>rest. fst (run_engine env m) = RunAnalysis m # rest"
    by (simp add: run_engine_def split: option.splits prod.splits)
  have "JSONManifestReadAll data \<notin> set ev1"
    using run_data_no_fallback_decode [of data env "manifest (work_info t)"] assms by simp
  then show "JSONManifestReadAll data \<notin> set (fst (run env t))"
    by (simp add: r run_engine_no_fallback_decode)
next
  fix e1 m
  assume h: "Manifest_read_all env data = Inl e1 \<and> is_Exception e1 \<and>
      JSONManifest_read_all env data = Inr m"
  then have rm: "run_manifest env data =
      ([ManifestReadAll data, JSONManifestReadAll data], Inr m)"
    by (simp add: run_manifest_def)
  show r: "run env t =
      (ev1 @ [ManifestReadAll data, JSONManifestReadAll data] @ fst (run_engine env m),
       snd (run_engine env m))"
    using assms rm by (simp add: run_def split: prod.splits)
  show "\<exists>rest. fst (run_engine env m) = RunAnalysis m # rest"
    by (simp add: run_engine_def split: option.splits prod.splits)
  show "error_logs (fst (run env t)) = []"
    by (simp add: r error_logs_append run_data_Inr_quiet [OF assms] run_engine_quiet)
next
  fix e1 e2
  assume h: "Manifest_read_all env data = Inl e1 \<and> is_Exception e1 \<and>
      JSONManifest_read_all env data = Inl e2 \<and> is_Exception e2"
  then have rm: "run_manifest env data =
      ([ManifestReadAll data, JSONManifestReadAll data,
        LogError (''Error parsing manifest: '' @ exn_str e2)], Inl Returned)"
    by (simp add: run_manifest_def)
  show r: "run env t =
      (ev1 @ [ManifestReadAll data, JSONManifestReadAll data,
              LogError (''Error parsing manifest: '' @ exn_str e2)], Returned)"
    using assms rm by (simp add: run_def)
  show "error_logs (fst (run env t)) = [''Error parsing manifest: '' @ exn_str e2]"
    by (simp add: r error_logs_append run_data_Inr_quiet [OF assms])
qed

theorem C3_decode_order_and_error_line_witness:
  "run_data env_ok (manifest (work_info local_thread)) =
     ([OpenRead ''/tmp/game.manifest''], Inr ''file bytes'') \<and>
   Manifest_read_all env_ok ''file bytes'' = Inr ''binary'' \<and>
   run env_ok local_thread =
     ([OpenRead ''/tmp/game.manifest'', ManifestReadAll ''file bytes'',
       RunAnalysis ''binary'', ManagerRun,
       signal_of sample1, signal_of sample2, FinishedSignal], Returned) \<and>
   JSONManifestReadAll ''file bytes'' \<notin> set (fst (run env_ok local_thread)) \<and>
   run_data env_json (manifest (work_info local_thread)) =
     ([OpenRead ''/tmp/game.manifest''], Inr ''file bytes'') \<and>
   Manifest_read_all env_json ''file bytes'' = Inl (OtherException ''bad magic'') \<and>
   is_Exception (OtherException ''bad magic'') \<and>
   JSONManifest_read_all env_json ''file bytes'' = Inr ''json'' \<and>
   run env_json local_thread =
     ([OpenRead ''/tmp/game.manifest'', ManifestReadAll ''file bytes'',
       JSONManifestReadAll ''file bytes'', RunAnalysis ''json'', ManagerRun,
       signal_of sample1, signal_of sample2, FinishedSignal], Returned) \<and>
   error_logs (fst (run env_json local_thread)) = [] \<and>
   run_data env_undecodable (manifest (work_info local_thread)) =
     ([OpenRead ''/tmp/game.manifest''], Inr ''file bytes'') \<and>
   Manifest_read_all env_undecodable ''file bytes'' = Inl (OtherException ''bad magic'') \<and>
   JSONManifest_read_all env_undecodable ''file bytes'' = Inl (OtherException ''not json'') \<and>
   is_Exception (OtherException ''not json'') \<and>
   run env_undecodable local_thread =
     ([OpenRead ''/tmp/game.manifest'', ManifestReadAll ''file bytes'',
       JSONManifestReadAll ''file bytes'', LogError ''Error parsing manifest: not json''],
      Returned) \<and>
   error_logs (fst (run env_undecodable local_thread)) = [''Error parsing manifest: not json'']"
proof -
  have k: "Manifest_read_all env_ok ''file bytes'' = Inr ''binary''"
    by (simp add: env_ok_def)
  have j: "Manifest_read_all env_json ''file bytes'' = Inl (OtherException ''bad magic'')"
    "JSONManifest_read_all env_json ''file bytes'' = Inr ''json''"
    by (simp_all add: env_json_def env_ok_def)
  have u: "Manifest_read_all env_undecodable ''file bytes'' = Inl (OtherException ''bad magic'')"
    "JSONManifest_read_all env_undecodable ''file bytes'' = Inl (OtherException ''not json'')"
    by (simp_all add: env_undecodable_def env_ok_def)
  have e: "run_engine env_json ''json'' =
      ([RunAnalysis ''json'', ManagerRun, signal_of sample1, signal_of sample2, FinishedSignal],
       Returned)"
    "run_engine env_ok ''binary'' =
      ([RunAnalysis ''binary'', ManagerRun, signal_of sample1, signal_of sample2,
        FinishedSignal], Returned)"
    by (simp_all add: run_engine_def env_json_def env_ok_def put_all_progress_queue
        update_progress_Some)
  from C3_decode_order_and_error_line [OF local_run_data(3)] k e
  have c: "run env_ok local_thread =
      ([OpenRead ''/tmp/game.manifest'', ManifestReadAll ''file bytes'',
        RunAnalysis ''binary'', ManagerRun,
        signal_of sample1, signal_of sample2, FinishedSignal], Returned)"
    and c': "JSONManifestReadAll ''file bytes'' \<notin> set (fst (run env_ok local_thread))"
    by (simp_all add: signal_of_def)
  from C3_decode_order_and_error_line [OF local_run_data(1)] j e
  have a: "run env_json local_thread =
      ([OpenRead ''/tmp/game.manifest'', ManifestReadAll ''file bytes'',
        JSONManifestReadAll ''file bytes'', RunAnalysis ''json'', ManagerRun,
        signal_of sample1, signal_of sample2, FinishedSignal], Returned)"
    and a': "error_logs (fst (run env_json local_thread)) = []"
    by (simp_all add: signal_of_def)
  from C3_decode_order_and_error_line [OF local_run_data(2)] u
  have b: "run env_undecodable local_thread =
      ([OpenRead ''/tmp/game.manifest'', ManifestReadAll ''file bytes'',
        JSONManifestReadAll ''file bytes'', LogError ''Error parsing manifest: not json''],
       Returned)"
    and b': "error_logs (fst (run env_undecodable local_thread)) =
      [''Error parsing manifest: not json'']"
    by simp_all
  show ?thesis
    using a a' b b' c c' k j u local_run_data by (simp add: signal_of_def)
qed


section \<open>One acquisition path\<close>

text \<open>
  C4: a job whose manifest spec matches the URL pattern makes exactly one remote fetch,
  of that spec, and opens no file; any other job opens exactly one file, the spec, and
  fetches nothing. No job does both.
\<close>

theorem C4_one_acquisition_path:
  "remote_fetches (fst (run env t)) =
     (if url_regex_match (manifest (work_info t)) then [manifest (work_info t)] else []) \<and>
   local_reads (fst (run env t)) =
     (if url_regex_match (manifest (work_info t)) then [] else [manifest (work_info t)])"
proof -
  obtain rest where r: "fst (run env t) = fst (run_data env (manifest (work_info t))) @ rest"
    "remote_fetches rest = []" "local_reads rest = []"
    using run_events by blast
  show ?thesis
    by (simp only: r remote_fetches_append local_reads_append run_data_acquisition
        append_Nil2 simp_thms)
qed

theorem C4_one_acquisition_path_witness:
  "remote_fetches (fst (run env_ok remote_thread)) =
     [''https://cdn.example.com/builds/app.manifest''] \<and>
   local_reads (fst (run env_ok remote_thread)) = [] \<and>
   remote_fetches (fst (run env_ok local_thread)) = [] \<and>
   local_reads (fst (run env_ok local_thread)) = [''/tmp/game.manifest'']"
  using C4_one_acquisition_path [of env_ok remote_thread]
    C4_one_acquisition_path [of env_ok local_thread]
  by (simp add: remote_thread_simps local_thread_simps remote_spec_matches local_spec_no_match)


section \<open>The progress sink\<close>

text \<open>
  C5 as stated fails: the sink has no slot. After two calls of \<^verbatim>\<open>put\<close> both samples
  have been forwarded, the first one too, each by its own signal.
\<close>

theorem C5_both_samples_forwarded:
  "put_all progress_queue [Some sample1, Some sample2] =
     [ProgressSignal 50 2 1 (1 / 2), ProgressSignal 100 4 0 3 :: string event] \<and>
   put_all progress_queue [Some sample1, Some sample2] \<noteq>
     (put_all progress_queue [Some sample2] :: string event list)"
  by (simp add: put_all_progress_queue update_progress_def sample1_def sample2_def)

text \<open>
  C5, amended: \<^verbatim>\<open>put\<close> stores nothing and calls the callback at once with its item.
  The signals of a sequence of calls are those of its parts in order, and a sequence of
  truthy samples is forwarded whole: one signal per sample, none dropped, none kept back.
\<close>

theorem C5_put_calls_callback:
  "put progress_queue item = update_progress item \<and>
   put_all progress_queue (xs @ ys) = put_all progress_queue xs @ put_all progress_queue ys \<and>
   put_all progress_queue (map Some ps) = map signal_of ps"
proof (intro conjI)
  show "put progress_queue item = update_progress item"
    by (simp add: put_progress_queue)
  show "put_all progress_queue (xs @ ys) = put_all progress_queue xs @ put_all progress_queue ys"
    by (simp add: put_all_def)
  show "put_all progress_queue (map Some ps) = map signal_of ps"
    by (rule put_all_Some)
qed


section \<open>Stopping the engine\<close>

text \<open>
  C6: with a download thread, \<^verbatim>\<open>closeEvent\<close> does two things to the engine in a fixed
  order: it clears the running flag, then sends the signal to the engine's process. The
  flag's write cannot raise, so the signal is always sent; when sending it raises, both
  steps have been taken and only the base class's \<^verbatim>\<open>closeEvent\<close> is skipped.
\<close>

theorem C6_closeEvent_flag_then_kill:
  assumes "download_thread w = Some t"
  shows "fst (snd (closeEvent env w)) =
      [SetRunning False, OsKill (parent_pid (manager t))] @
        (case os_kill env (parent_pid (manager t)) of
           None \<Rightarrow> [SuperCloseEvent] | Some e \<Rightarrow> []) \<and>
    map_option (\<lambda>t'. running (manager t')) (download_thread (fst (closeEvent env w))) =
      Some False"
  using assms
  by (simp add: closeEvent_def kill_def stop_running_def split: option.splits)

theorem C6_closeEvent_flag_then_kill_witness:
  "download_thread (download_file env_ok local_window) = Some local_thread \<and>
   fst (snd (closeEvent env_ok (download_file env_ok local_window))) =
     [SetRunning False, OsKill 4242, SuperCloseEvent :: string event] \<and>
   fst (snd (closeEvent env_kill_fails (download_file env_ok local_window))) =
     [SetRunning False, OsKill 4242 :: string event] \<and>
   snd (snd (closeEvent env_kill_fails (download_file env_ok local_window))) =
     Raised (OtherException ''No such process'')"
proof -
  have t: "download_thread (download_file env_ok local_window) = Some local_thread"
    by (simp add: local_thread_def download_file_def)
  have k: "os_kill env_ok 4242 = None"
    "os_kill env_kill_fails 4242 = Some (OtherException ''No such process'')"
    by (simp_all add: env_kill_fails_def env_ok_def)
  have o: "snd (snd (closeEvent env_kill_fails (download_file env_ok local_window))) =
     Raised (OtherException ''No such process'')"
    by (simp add: closeEvent_def t kill_def stop_running_def local_thread_simps k)
  from C6_closeEvent_flag_then_kill [OF t, of env_ok]
    C6_closeEvent_flag_then_kill [OF t, of env_kill_fails] t k o
  show ?thesis by (simp add: local_thread_simps)
qed


section \<open>Reading a manifest from a file\<close>

text \<open>
  C7 as stated fails: only \<^verbatim>\<open>FileNotFoundError\<close> is caught. A file that exists and
  cannot be opened raises \<^verbatim>\<open>PermissionError\<close>, which leaves \<^verbatim>\<open>run\<close> uncaught.
\<close>

theorem C7_permission_error_propagates:
  "\<not> url_regex_match (manifest (work_info local_thread)) \<and>
   open_read env_denied (manifest (work_info local_thread)) =
     Inl (PermissionError ''Permission denied'') \<and>
   run env_denied local_thread =
     ([OpenRead ''/tmp/game.manifest''], Raised (PermissionError ''Permission denied''))"
  by (simp add: run_def run_data_def local_thread_simps local_spec_no_match env_denied_def)

text \<open>
  C7, amended: for a manifest spec that does not match the URL pattern, a read that
  succeeds yields the file's bytes as they are, and they are what the binary reader is
  called with; a missing file (\<^verbatim>\<open>FileNotFoundError\<close>) is logged and \<^verbatim>\<open>run\<close>
  returns, with no reader called and the engine never run; any other exception of the
  open or the read is not caught: it leaves \<^verbatim>\<open>run\<close> right after the attempt, with
  nothing logged.
\<close>

theorem C7_local_read:
  assumes "\<not> url_regex_match (manifest (work_info t))"
  shows "(\<forall>data. open_read env (manifest (work_info t)) = Inr data \<longrightarrow>
        run_data env (manifest (work_info t)) = ([OpenRead (manifest (work_info t))], Inr data) \<and>
        (\<exists>rest. fst (run env t) =
           [OpenRead (manifest (work_info t)), ManifestReadAll data] @ rest)) \<and>
    (\<forall>msg. open_read env (manifest (work_info t)) = Inl (FileNotFoundError msg) \<longrightarrow>
        run env t =
          ([OpenRead (manifest (work_info t)), LogError ''Manifest file not found.''],
           Returned)) \<and>
    (\<forall>e. open_read env (manifest (work_info t)) = Inl e \<and> \<not> is_FileNotFoundError e \<longrightarrow>
        run env t = ([OpenRead (manifest (work_info t))], Raised e))"
proof (intro conjI allI impI)
  fix data
  assume o: "open_read env (manifest (work_info t)) = Inr data"
  with assms show d: "run_data env (manifest (work_info t)) =
      ([OpenRead (manifest (work_info t))], Inr data)"
    by (simp add: run_data_def)
  show "\<exists>rest. fst (run env t) =
      [OpenRead (manifest (work_info t)), ManifestReadAll data] @ rest"
    by (auto simp: run_def d run_manifest_def split: sum.splits prod.splits)
next
  fix msg
  assume "open_read env (manifest (work_info t)) = Inl (FileNotFoundError msg)"
  with assms show "run env t =
      ([OpenRead (manifest (work_info t)), LogError ''Manifest file not found.''], Returned)"
    by (simp add: run_def run_data_def)
next
  fix e
  assume "open_read env (manifest (work_info t)) = Inl e \<and> \<not> is_FileNotFoundError e"
  with assms show "run env t = ([OpenRead (manifest (work_info t))], Raised e)"
    by (simp add: run_def run_data_def)
qed

theorem C7_local_read_witness:
  "\<not> url_regex_match (manifest (work_info local_thread)) \<and>
   open_read env_ok (manifest (work_info local_thread)) = Inr ''file bytes'' \<and>
   run_data env_ok (manifest (work_info local_thread)) =
     ([OpenRead ''/tmp/game.manifest''], Inr ''file bytes'') \<and>
   open_read env_missing_file (manifest (work_info local_thread)) =
     Inl (FileNotFoundError ''No such file'') \<and>
   run env_missing_file local_thread =
     ([OpenRead ''/tmp/game.manifest'', LogError ''Manifest file not found.''], Returned) \<and>
   open_read env_denied (manifest (work_info local_thread)) =
     Inl (PermissionError ''Permission denied'') \<and>
   \<not> is_FileNotFoundError (PermissionError ''Permission denied'') \<and>
   run env_denied local_thread =
     ([OpenRead ''/tmp/game.manifest''], Raised (PermissionError ''Permission denied''))"
proof -
  have n: "\<not> url_regex_match (manifest (work_info local_thread))"
    by (simp add: local_thread_simps local_spec_no_match)
  have o: "open_read env_ok (manifest (work_info local_thread)) = Inr ''file bytes''"
    "open_read env_missing_file (manifest (work_info local_thread)) =
       Inl (FileNotFoundError ''No such file'')"
    "open_read env_denied (manifest (work_info local_thread)) =
       Inl (PermissionError ''Permission denied'')"
    by (simp_all add: env_ok_def env_missing_file_def env_denied_def)
  from C7_local_read [OF n, of env_ok] o(1)
  have a: "run_data env_ok (manifest (work_info local_thread)) =
      ([OpenRead (manifest (work_info local_thread))], Inr ''file bytes'')"
    by blast
  from C7_local_read [OF n, of env_missing_file] o(2)
  have b: "run env_missing_file local_thread =
      ([OpenRead (manifest (work_info local_thread)), LogError ''Manifest file not found.''],
       Returned)"
    by blast
  from C7_local_read [OF n, of env_denied] o(3)
  have c: "run env_denied local_thread =
      ([OpenRead (manifest (work_info local_thread))],
       Raised (PermissionError ''Permission denied''))"
    by simp
  show ?thesis
    using n o a b c by (simp add: local_thread_simps)
qed


section \<open>Progress\<close>

text \<open>
  C8: a progress sample that is forwarded becomes one \<^verbatim>\<open>progress_signal\<close> whose first
  argument is the sample's progress unchanged and whose other three are the download,
  read and write speeds, each divided by 1,048,576.
\<close>

theorem C8_rates_divided_by_1048576:
  "update_progress (Some p) =
     [ProgressSignal (progress p) (download_speed p / 1048576)
        (read_speed p / 1048576) (write_speed p / 1048576)]"
  by (simp add: update_progress_def)


section \<open>Closing the window\<close>

text \<open>
  C9: without a download thread, \<^verbatim>\<open>closeEvent\<close> leaves the window's state as it is,
  writes no flag, sends no signal and returns: its only action is the base class's
  \<^verbatim>\<open>closeEvent\<close>.
\<close>

theorem C9_closeEvent_without_thread:
  assumes "download_thread w = None"
  shows "closeEvent env w = (w, [SuperCloseEvent], Returned)"
  using assms by (simp add: closeEvent_def)

theorem C9_closeEvent_without_thread_witness:
  "download_thread init_ui = None \<and>
   closeEvent env_ok init_ui = (init_ui, [SuperCloseEvent], Returned)"
proof -
  have n: "download_thread init_ui = None"
    by (simp add: init_ui_def)
  from C9_closeEvent_without_thread [OF n, of env_ok] n show ?thesis by simp
qed


section \<open>The end of a job\<close>

text \<open>
  C10: \<^verbatim>\<open>download_finished\<close>, which runs on every \<^verbatim>\<open>finished\<close> signal and so also
  after a job that completed, clears the engine's running flag and then sends the
  termination signal to the engine's process.
\<close>

theorem C10_download_finished_stops_engine:
  assumes "download_thread w = Some t"
  shows "fst (snd (download_finished env w)) =
      [SetRunning False, OsKill (parent_pid (manager t))] \<and>
    map_option (\<lambda>t'. running (manager t')) (download_thread (fst (download_finished env w))) =
      Some False"
  using assms
  by (simp add: download_finished_def kill_def stop_running_def split: option.splits)

theorem C10_download_finished_stops_engine_witness:
  "download_thread (download_file env_ok local_window) = Some local_thread \<and>
   snd (run env_ok local_thread) = Returned \<and>
   last (fst (run env_ok local_thread)) = FinishedSignal \<and>
   fst (snd (download_finished env_ok (download_file env_ok local_window))) =
     [SetRunning False, OsKill 4242 :: string event] \<and>
   map_option (\<lambda>t'. running (manager t'))
     (download_thread (fst (download_finished env_ok (download_file env_ok local_window)))) =
     Some False"
proof -
  have t: "download_thread (download_file env_ok local_window) = Some local_thread"
    by (simp add: local_thread_def download_file_def)
  have r: "run env_ok local_thread =
      ([OpenRead ''/tmp/game.manifest'', ManifestReadAll ''file bytes'', RunAnalysis ''binary'',
        ManagerRun, signal_of sample1, signal_of sample2, FinishedSignal], Returned)"
    by (simp add: run_def run_data_def run_manifest_def run_engine_def local_thread_simps
        local_spec_no_match env_ok_def put_all_progress_queue update_progress_Some)
  from C10_download_finished_stops_engine [OF t, of env_ok] t r
  show ?thesis by (simp add: local_thread_simps)
qed

end
